theory Spec2Isabelle
  imports Complex_Main "HOL-Library.Char_ord" "HOL-Library.List_Lexorder"
begin

section \<open>Python strings\<close>


definition is_space :: "char \<Rightarrow> bool" where
  \<comment> \<open>\<open>str.isspace\<close> on ASCII: TAB, LF, VT, FF, CR, FS, GS, RS, US and the space\<close>
  "is_space c = (let n = (of_char c :: nat) in (9 \<le> n \<and> n \<le> 13) \<or> (28 \<le> n \<and> n \<le> 32))"

definition is_upper :: "char \<Rightarrow> bool" where
  "is_upper c = (let n = (of_char c :: nat) in 65 \<le> n \<and> n \<le> 90)"

definition is_lower :: "char \<Rightarrow> bool" where
  "is_lower c = (let n = (of_char c :: nat) in 97 \<le> n \<and> n \<le> 122)"

definition is_digit :: "char \<Rightarrow> bool" where
  "is_digit c = (let n = (of_char c :: nat) in 48 \<le> n \<and> n \<le> 57)"

definition is_cased :: "char \<Rightarrow> bool" where
  "is_cased c = (is_upper c \<or> is_lower c)"

definition lower_char :: "char \<Rightarrow> char" where
  \<comment> \<open>\<open>str.lower\<close> on an ASCII character\<close>
  "lower_char c = (if is_upper c then char_of ((of_char c :: nat) + 32) else c)"

definition upper_char :: "char \<Rightarrow> char" where
  \<comment> \<open>\<open>str.upper\<close> on an ASCII character\<close>
  "upper_char c = (if is_lower c then char_of ((of_char c :: nat) - 32) else c)"

definition lower :: "string \<Rightarrow> string" where
  \<comment> \<open>\<open>s.lower()\<close>, for ASCII \<open>s\<close>\<close>
  "lower s = map lower_char s"

definition lstrip :: "string \<Rightarrow> string" where
  "lstrip s = dropWhile is_space s"

definition rstrip :: "string \<Rightarrow> string" where
  "rstrip s = rev (dropWhile is_space (rev s))"

definition strip :: "string \<Rightarrow> string" where
  \<comment> \<open>\<open>s.strip()\<close>, for ASCII \<open>s\<close>\<close>
  "strip s = rstrip (lstrip s)"



definition replace_underscore :: "string \<Rightarrow> string" where
  \<comment> \<open>\<open>s.replace("_", " ")\<close>\<close>
  "replace_underscore s = map (\<lambda>c. if c = CHR ''_'' then CHR '' '' else c) s"

fun title_from :: "bool \<Rightarrow> string \<Rightarrow> string" where
  "title_from previous_is_cased [] = []"
| "title_from previous_is_cased (c # cs) =
     (if previous_is_cased then lower_char c else upper_char c) # title_from (is_cased c) cs"

definition title :: "string \<Rightarrow> string" where
  \<comment> \<open>\<open>s.title()\<close>, for ASCII \<open>s\<close>\<close>
  "title s = title_from False s"


definition is_linebreak :: "char \<Rightarrow> bool" where
  \<comment> \<open>the line boundaries of \<open>str.splitlines\<close> within ASCII: LF, VT, FF, CR, FS, GS, RS\<close>
  "is_linebreak c = (let n = (of_char c :: nat) in (10 \<le> n \<and> n \<le> 13) \<or> (28 \<le> n \<and> n \<le> 30))"



definition single_line :: "string \<Rightarrow> bool" where
  "single_line s = (\<forall>c \<in> set s. \<not> is_linebreak c)"


section \<open>safety.py\<close>

definition BLOCKED_KEYWORDS :: "string list" where
  "BLOCKED_KEYWORDS =
     [''weapon'', ''bomb'', ''explosive'', ''explicit'', ''porn'', ''pornography'',
      ''hate'', ''self-harm'', ''suicide'', ''kill'', ''murder'', ''drug'', ''narcotic'',
      ''terrorism'', ''racist'', ''slur'']"

definition is_word_char :: "char \<Rightarrow> bool" where
  \<comment> \<open>the class \<open>\w\<close> of \<open>re\<close> on ASCII: letters, digits and the underscore\<close>
  "is_word_char c = (is_digit c \<or> is_upper c \<or> is_lower c \<or> c = CHR ''_'')"

definition word_at :: "string \<Rightarrow> int \<Rightarrow> bool" where
  \<comment> \<open>there is a word character at index \<open>i\<close>; outside the string there is none\<close>
  "word_at s i = (0 \<le> i \<and> i < int (length s) \<and> is_word_char (s ! nat i))"

definition word_boundary :: "string \<Rightarrow> nat \<Rightarrow> bool" where
  \<comment> \<open>\<open>\b\<close> matches at position \<open>i\<close>: exactly one of the two neighbours is a word character\<close>
  "word_boundary s i = (word_at s (int i - 1) \<noteq> word_at s (int i))"

definition match_at :: "string \<Rightarrow> string \<Rightarrow> nat \<Rightarrow> bool" where
  \<comment> \<open>the pattern \<open>\b\<close> keyword \<open>\b\<close>, the keyword escaped and so literal, matches at \<open>i\<close>\<close>
  "match_at keyword s i =
     (word_boundary s i \<and> take (length keyword) (drop i s) = keyword
      \<and> word_boundary s (i + length keyword))"

definition re_search_word :: "string \<Rightarrow> string \<Rightarrow> bool" where
  \<comment> \<open>\<open>re.search(rf"\b{re.escape(keyword)}\b", s)\<close> finds a match, for ASCII \<open>s\<close>\<close>
  "re_search_word keyword s = list_ex (match_at keyword s) [0 ..< Suc (length s)]"

fun scan_keywords :: "string list \<Rightarrow> string \<Rightarrow> bool" where
  \<comment> \<open>the \<open>for keyword in BLOCKED_KEYWORDS\<close> loop, with its early \<open>return False\<close>\<close>
  "scan_keywords [] lowered = True"
| "scan_keywords (keyword # rest) lowered =
     (if re_search_word keyword lowered then False else scan_keywords rest lowered)"

definition is_safe_request :: "string \<Rightarrow> bool" where
  "is_safe_request text =
     (if text = [] \<or> strip text = [] then True
      else scan_keywords BLOCKED_KEYWORDS (lower text))"




section \<open>word_bot.py\<close>

text \<open>
  A WordNet synset, as far as the module reads it: \<open>pos()\<close>, \<open>definition()\<close>,
  \<open>examples()\<close> and the names of \<open>lemmas()\<close> (WordNet writes a multi-word lemma with
  underscores). The corpus reader \<open>wn.synsets\<close> is a parameter of the model.
\<close>

record synset =
  syn_pos :: string
  syn_definition :: string
  syn_examples :: "string list"
  syn_lemma_names :: "string list"

record word_entry =
  entry_word :: string
  entry_part_of_speech :: string
  entry_pronunciation :: string
  entry_definition :: string
  entry_examples :: "string list"
  entry_synonyms :: "string list"

definition POS_MAP :: "(string \<times> string) list" where
  "POS_MAP =
     [(''n'', ''noun''), (''v'', ''verb''), (''a'', ''adjective''), (''r'', ''adverb''),
      (''s'', ''adjective satellite'')]"

definition pos_readable :: "string \<Rightarrow> string" where
  "pos_readable wn_pos = (case map_of POS_MAP wn_pos of Some r \<Rightarrow> r | None \<Rightarrow> ''unknown'')"

definition collect_synonyms :: "synset \<Rightarrow> string \<Rightarrow> nat \<Rightarrow> string list" where
  \<comment> \<open>\<open>sorted\<close> of a set comprehension: the distinct names in ascending order\<close>
  "collect_synonyms ss word limit =
     take limit (sort (remdups (map replace_underscore
       (filter (\<lambda>name. lower name \<noteq> lower word) (syn_lemma_names ss)))))"

fun scan_examples :: "string list \<Rightarrow> synset list \<Rightarrow> string list" where
  \<comment> \<open>\<open>for ss in synsets[1:4]: examples = ss.examples()[:2]; if examples: break\<close>\<close>
  "scan_examples examples [] = examples"
| "scan_examples examples (ss # rest) =
     (if take 2 (syn_examples ss) \<noteq> [] then take 2 (syn_examples ss)
      else scan_examples (take 2 (syn_examples ss)) rest)"

definition gather_examples :: "synset list \<Rightarrow> string list" where
  \<comment> \<open>lines 91-96 of \<open>define_word\<close>, the same as lines 138-143 of \<open>define_word_json\<close>;
      \<open>synsets\<close> is not empty there\<close>
  "gather_examples synsets =
     (let examples = take 2 (syn_examples (hd synsets))
      in if examples = [] then scan_examples examples (take 3 (drop 1 synsets))
         else examples)"

fun extend_synonyms :: "string list \<Rightarrow> synset list \<Rightarrow> string \<Rightarrow> string list" where
  \<comment> \<open>\<open>for ss in synsets[1:4]: synonyms += _collect_synonyms(ss, word)\<close>\<close>
  "extend_synonyms synonyms [] word = synonyms"
| "extend_synonyms synonyms (ss # rest) word =
     extend_synonyms (synonyms @ collect_synonyms ss word 3) rest word"

fun unique_loop :: "'a set \<Rightarrow> 'a list \<Rightarrow> 'a list \<Rightarrow> 'a list" where
  \<comment> \<open>\<open>for s in synonyms: if s not in seen: seen.add(s); unique.append(s)\<close>\<close>
  "unique_loop seen unique [] = unique"
| "unique_loop seen unique (s # rest) =
     (if s \<notin> seen then unique_loop (insert s seen) (unique @ [s]) rest
      else unique_loop seen unique rest)"

definition gather_synonyms :: "synset list \<Rightarrow> string \<Rightarrow> string list" where
  \<comment> \<open>lines 99-110 of \<open>define_word\<close>, the same as lines 145-155 of \<open>define_word_json\<close>;
      \<open>synsets\<close> is not empty there\<close>
  "gather_synonyms synsets word =
     (let synonyms = collect_synonyms (hd synsets) word 3
      in if length synonyms < 2
         then take 3 (unique_loop {} [] (extend_synonyms synonyms (take 3 (drop 1 synsets)) word))
         else synonyms)"

definition NO_ENTRY :: string where
  "NO_ENTRY = ''No entry found. Check spelling or try a simpler term.''"

definition define_word_json :: "(string \<Rightarrow> synset list) \<Rightarrow> string \<Rightarrow> word_entry" where
  "define_word_json wn_synsets word0 =
     (let word = lower (strip word0); synsets = wn_synsets word
      in if synsets = []
         then \<lparr>entry_word = word, entry_part_of_speech = ''unknown'',
               entry_pronunciation = ''N/A'', entry_definition = NO_ENTRY,
               entry_examples = [], entry_synonyms = []\<rparr>
         else \<lparr>entry_word = word,
               entry_part_of_speech = pos_readable (syn_pos (hd synsets)),
               entry_pronunciation = ''N/A'',
               entry_definition = syn_definition (hd synsets),
               entry_examples = gather_examples synsets,
               entry_synonyms = gather_synonyms synsets word\<rparr>)"




definition first_seen :: "'a list \<Rightarrow> 'a list" where
  \<comment> \<open>the specification's words: de-duplicated, the first occurrence of each element kept\<close>
  "first_seen xs = rev (remdups (rev xs))"

definition spec_sense_synonyms :: "string \<Rightarrow> synset \<Rightarrow> string list" where
  \<comment> \<open>the specification's words: the synonym terms of a sense without the query word
      (a lemma named as the query word, whatever the case), in alphabetical order\<close>
  "spec_sense_synonyms word ss =
     sorted_list_of_set
       (replace_underscore ` {name \<in> set (syn_lemma_names ss). lower name \<noteq> lower word})"

definition spec_synonyms :: "string \<Rightarrow> synset list \<Rightarrow> string list" where
  \<comment> \<open>the specification's words: the primary sense's synonyms capped at 3; with fewer
      than 2 of them, those of senses 1 to 3 appended in order, de-duplicated, capped at 3\<close>
  "spec_synonyms word synsets =
     (let primary = take 3 (spec_sense_synonyms word (hd synsets))
      in if length primary < 2
         then take 3 (first_seen
                (primary @ concat (map (spec_sense_synonyms word) (take 3 (tl synsets)))))
         else primary)"

definition spec_examples :: "synset list \<Rightarrow> string list" where
  \<comment> \<open>the specification's words: up to 2 examples of the primary sense; if it has none,
      up to 2 of the first sense among senses 1 to 3 that has any\<close>
  "spec_examples synsets =
     (if syn_examples (hd synsets) \<noteq> [] then take 2 (syn_examples (hd synsets))
      else (case find (\<lambda>ss. syn_examples ss \<noteq> []) (take 3 (tl synsets)) of
              Some ss \<Rightarrow> take 2 (syn_examples ss)
            | None \<Rightarrow> []))"


section \<open>image_bot.py\<close>

text \<open>
  What \<open>describe_image\<close> reads from outside is a parameter of the model: the file
  system (\<open>os.path.isfile\<close>), the loading of the model and the decoding of the image
  (the first \<open>try\<close> block), the classifier (the second \<open>try\<close> block, which yields the
  top probability and its index), the class names \<open>_labels\<close>, and the rendering
  \<open>{confidence:.2%}\<close> of a float. An exception is the string \<open>str(exc)\<close>. The confidence
  is a \<open>real\<close>: the code only compares it with \<open>0.15\<close> and hands it to the formatter.
\<close>

record 'img world =
  isfile :: "string \<Rightarrow> bool"
  load_and_open :: "string \<Rightarrow> string + 'img"
  infer :: "'img \<Rightarrow> string + (real \<times> int)"
  class_labels :: "string list"
  percent :: "real \<Rightarrow> string"

definition emdash :: string where
  \<comment> \<open>U+2014 in UTF-8\<close>
  "emdash = [CHR 0xE2, CHR 0x80, CHR 0x94]"

definition LABEL_INFO :: "(string \<times> string \<times> string) list" where
  "LABEL_INFO =
     [(''tabby'',
        ''A tabby cat with distinctive striped or spotted fur markings.'',
        ''A domestic cat pattern; one of the most common coat types in household cats.''),
      (''tiger cat'',
        ''A tiger cat (mackerel tabby) with bold striped markings.'',
        ''A domestic cat breed known for tiger-like stripes on its coat.''),
      (''Siamese cat'',
        ''A Siamese cat with a light body and dark points on the ears, face, and paws.'',
        ''A domestic cat breed known for its distinct coloration and vocal behavior.''),
      (''Egyptian cat'',
        ''An Egyptian Mau cat with a spotted coat and elegant build.'',
        ''One of the oldest domesticated cat breeds, originating from Egypt.''),
      (''Persian cat'',
        ''A Persian cat with long, luxurious fur and a flat face.'',
        ''A popular domestic breed known for its gentle temperament and long coat.''),
      (''golden retriever'',
        ''A golden retriever with a friendly expression and golden coat.'',
        ''A popular dog breed valued for its intelligence and gentle nature.''),
      (''Labrador retriever'',
        ''A Labrador retriever with a short, dense coat.'',
        ''One of the most popular dog breeds, often used as service and guide dogs.''),
      (''German shepherd'',
        ''A German shepherd dog with an alert posture.'',
        ''A working dog breed known for its intelligence, loyalty, and versatility.''),
      (''cup'',
        ''A cup '' @ emdash @ '' a small, open container used for drinking.'',
        ''A common household item for holding beverages, typically with a handle.''),
      (''coffee mug'',
        ''A coffee mug '' @ emdash @ '' a sturdy cup designed for hot beverages.'',
        ''A household drinkware item, larger than a teacup, often ceramic.''),
      (''wooden spoon'',
        ''A wooden spoon used for cooking and stirring.'',
        ''A kitchen utensil carved from wood, commonly used when cooking.''),
      (''chair'',
        ''A chair '' @ emdash @ '' a piece of furniture for sitting.'',
        ''A common furniture item with a seat, back, and often four legs.''),
      (''folding chair'',
        ''A folding chair '' @ emdash @ '' a portable, collapsible seating option.'',
        ''A lightweight chair designed to fold flat for easy storage and transport.''),
      (''rocking chair'',
        ''A rocking chair with curved legs that allows back-and-forth motion.'',
        ''A type of chair often associated with relaxation and front porches.''),
      (''desk'',
        ''A desk '' @ emdash @ '' a flat-surfaced table used for reading, writing, or working.'',
        ''A furniture piece commonly found in offices and study areas.''),
      (''laptop'',
        ''A laptop computer '' @ emdash @ '' a portable personal computer.'',
        ''An electronic device used for computing, communication, and entertainment.''),
      (''cellular telephone'',
        ''A mobile phone '' @ emdash @ '' a wireless communication device.'',
        ''A widely-used electronic device for calls, messaging, and internet access.''),
      (''monitor'',
        ''A computer monitor '' @ emdash @ '' an electronic display screen.'',
        ''An output device used to visually display information from a computer.'')]"

definition generic_description :: "string \<Rightarrow> string" where
  "generic_description label = ''An image likely depicting: '' @ label @ ''.''"

definition generic_meaning :: "string \<Rightarrow> string" where
  "generic_meaning label =
     [CHR 0x27] @ title label @ [CHR 0x27]
     @ '' is a concept or object recognized by the image ''
     @ ''classifier. Consult a reference for more context.''"

definition get_label_info :: "(string \<times> string \<times> string) list \<Rightarrow> string \<Rightarrow> string \<times> string" where
  \<comment> \<open>\<open>_get_label_info\<close>; the module's table \<open>_LABEL_INFO\<close> is the first argument\<close>
  "get_label_info table label =
     (case map_of table label of
        Some info \<Rightarrow> info
      | None \<Rightarrow> (generic_description label, generic_meaning label))"

definition LOW_CONFIDENCE_DESCRIPTION :: string where
  "LOW_CONFIDENCE_DESCRIPTION =
     ''The classifier could not identify this image with high confidence.''"

definition LOW_CONFIDENCE_MEANING :: string where
  "LOW_CONFIDENCE_MEANING = ''Try uploading a clearer photo or a different angle.''"

definition image_format_entry ::
  "(real \<Rightarrow> string) \<Rightarrow> string \<Rightarrow> string \<Rightarrow> string \<Rightarrow> real \<Rightarrow> string" where
  \<comment> \<open>\<open>_format_entry\<close> of image_bot.py\<close>
  "image_format_entry pct label description meaning confidence =
     ''[label]\<newline>  '' @ label @ ''\<newline>''
     @ ''[description]\<newline>  '' @ description @ ''\<newline>''
     @ ''[meaning]\<newline>  '' @ meaning @ ''\<newline>''
     @ ''[confidence]\<newline>  '' @ pct confidence"

definition format_error :: "string \<Rightarrow> string" where
  "format_error message =
     ''[label]\<newline>  unknown\<newline>''
     @ ''[description]\<newline>  '' @ message @ ''\<newline>''
     @ ''[meaning]\<newline>  N/A''"

definition rfind :: "string \<Rightarrow> char \<Rightarrow> int" where
  \<comment> \<open>\<open>p.rfind(c)\<close>: the index of the last \<open>c\<close>, or -1\<close>
  "rfind p c =
     (if c \<in> set p then int (length p) - 1 - int (length (takeWhile (\<lambda>x. x \<noteq> c) (rev p)))
      else - 1)"

definition splitext :: "string \<Rightarrow> string \<times> string" where
  \<comment> \<open>\<open>os.path.splitext\<close> of posixpath: the extension starts at the last dot of the last
      path component, unless only dots come before it there\<close>
  "splitext p =
     (let sepIndex = rfind p (CHR ''/''); dotIndex = rfind p (CHR ''.'')
      in if dotIndex > sepIndex
            \<and> list_ex (\<lambda>c. c \<noteq> CHR ''.'')
                 (take (nat (dotIndex - (sepIndex + 1))) (drop (nat (sepIndex + 1)) p))
         then (take (nat dotIndex) p, drop (nat dotIndex) p)
         else (p, []))"

definition valid_extensions :: "string set" where
  "valid_extensions = {''.jpg'', ''.jpeg'', ''.png'', ''.bmp'', ''.gif'', ''.webp''}"

definition pick_label :: "string list \<Rightarrow> int \<Rightarrow> string" where
  \<comment> \<open>\<open>_labels[pred_idx] if _labels and 0 <= pred_idx < len(_labels) else "unknown object"\<close>\<close>
  "pick_label labels pred_idx =
     (if labels \<noteq> [] \<and> 0 \<le> pred_idx \<and> pred_idx < int (length labels)
      then labels ! nat pred_idx else ''unknown object'')"

definition describe_image ::
  "'img world \<Rightarrow> (string \<times> string \<times> string) list \<Rightarrow> string \<Rightarrow> string" where
  "describe_image w table image_path =
     (if \<not> isfile w image_path then format_error (''File not found: '' @ image_path)
      else let ext = snd (splitext image_path)
      in if lower ext \<notin> valid_extensions
         then format_error (''Unsupported image format '' @ [CHR 0x27] @ ext @ [CHR 0x27]
                            @ ''. Please use JPG or PNG.'')
         else (case load_and_open w image_path of
                 Inl exc \<Rightarrow> format_error (''Could not read image: '' @ exc)
               | Inr img \<Rightarrow>
                   (case infer w img of
                      Inl exc \<Rightarrow> format_error (''Classification error: '' @ exc)
                    | Inr (confidence, pred_idx) \<Rightarrow>
                        (let label = pick_label (class_labels w) pred_idx
                         in if confidence < 0.15
                            then image_format_entry (percent w) ''unknown object''
                                   LOW_CONFIDENCE_DESCRIPTION LOW_CONFIDENCE_MEANING confidence
                            else (let (description, meaning) = get_label_info table label
                                  in image_format_entry (percent w) label description meaning
                                       confidence)))))"






section \<open>Auxiliary notions and sample data\<close>







definition dog_synsets :: "synset list" where
  "dog_synsets =
     [\<lparr>syn_pos = ''n'', syn_definition = ''a domestic animal'', syn_examples = [],
       syn_lemma_names = [''dog'', ''domestic_dog'']\<rparr>,
      \<lparr>syn_pos = ''v'', syn_definition = ''go after'',
       syn_examples = [''e1'', ''e2'', ''e3''],
       syn_lemma_names = [''chase'', ''dog'', ''tail'', ''go_after'']\<rparr>]"


definition tabby_world :: "unit world" where
  "tabby_world =
     \<lparr>isfile = (\<lambda>p. p = ''cat.png'' \<or> p = ''notes.txt''),
      load_and_open = (\<lambda>p. Inr ()),
      infer = (\<lambda>img. Inr (0.82, 0)),
      class_labels = [''tabby'', ''cup''],
      percent = (\<lambda>c. ''82.00%'')\<rparr>"


section \<open>Facts about the string functions\<close>

lemma of_char_lower_char:
  "(of_char (lower_char c) :: nat) = (if is_upper c then of_char c + 32 else of_char c)"
  by (auto simp: lower_char_def is_upper_def Let_def)

lemma is_space_lower_char [simp]: "is_space (lower_char c) = is_space c"
  by (auto simp: is_space_def of_char_lower_char is_upper_def Let_def)

lemma lower_char_eq_underscore: "lower_char c = CHR ''_'' \<longleftrightarrow> c = CHR ''_''"
proof
  assume "lower_char c = CHR ''_''"
  then have "(of_char (lower_char c) :: nat) = of_char (CHR ''_'')" by simp
  then have "(of_char c :: nat) = of_char (CHR ''_'')"
    by (auto simp: of_char_lower_char is_upper_def split: if_splits)
  then show "c = CHR ''_''" by (simp only: of_char_eq_iff)
next
  assume "c = CHR ''_''"
  then show "lower_char c = CHR ''_''"
    by (simp add: lower_char_def is_upper_def)
qed

lemma is_word_char_lower_char [simp]: "is_word_char (lower_char c) = is_word_char c"
  unfolding is_word_char_def lower_char_eq_underscore
  by (auto simp: is_digit_def is_upper_def is_lower_def of_char_lower_char Let_def)

lemma strip_all_space: "\<forall>c\<in>set text. is_space c \<Longrightarrow> strip text = []"
proof -
  assume "\<forall>c\<in>set text. is_space c"
  then have "dropWhile is_space text = []" by simp
  then show ?thesis by (simp add: strip_def lstrip_def rstrip_def del: dropWhile_eq_Nil_conv)
qed

lemma last_dropWhile: "dropWhile P xs \<noteq> [] \<Longrightarrow> last (dropWhile P xs) = last xs"
  by (induction xs) (auto split: if_splits)

lemma dropWhile_hd_id: "xs = [] \<or> \<not> P (hd xs) \<Longrightarrow> dropWhile P xs = xs"
  by (cases xs) auto

lemma strip_trimmed:
  "strip s = [] \<or> (\<not> is_space (hd (strip s)) \<and> \<not> is_space (last (strip s)))"
proof (cases "strip s = []")
  case True
  then show ?thesis by simp
next
  case False
  define u where "u = dropWhile is_space s"
  define v where "v = dropWhile is_space (rev u)"
  have t: "strip s = rev v" by (simp add: strip_def lstrip_def rstrip_def u_def v_def)
  with False have v: "v \<noteq> []" by simp
  then have u: "u \<noteq> []" by (auto simp: v_def)
  have "\<not> is_space (hd v)" using v unfolding v_def by (rule hd_dropWhile)
  then have l: "\<not> is_space (last (strip s))" using v by (simp add: t last_rev)
  have "last v = last (rev u)" using v unfolding v_def by (rule last_dropWhile)
  then have "hd (strip s) = hd u" using u v by (simp add: t hd_rev last_rev)
  moreover have "\<not> is_space (hd u)"
  proof -
    have "dropWhile is_space s \<noteq> []" using u by (simp add: u_def)
    then show ?thesis unfolding u_def by (rule hd_dropWhile)
  qed
  ultimately show ?thesis using l by simp
qed

lemma strip_id:
  assumes "s = [] \<or> (\<not> is_space (hd s) \<and> \<not> is_space (last s))"
  shows "strip s = s"
proof (cases "s = []")
  case True
  then show ?thesis by (simp add: strip_def lstrip_def rstrip_def)
next
  case False
  with assms have h: "\<not> is_space (hd s)" and l: "\<not> is_space (last s)" by auto
  have a: "dropWhile is_space s = s" using h by (intro dropWhile_hd_id) simp
  have "dropWhile is_space (rev s) = rev s"
    using l False by (intro dropWhile_hd_id) (simp add: hd_rev)
  with a show ?thesis by (simp add: strip_def lstrip_def rstrip_def)
qed

lemma strip_strip [simp]: "strip (strip s) = strip s"
  by (rule strip_id) (rule strip_trimmed)

lemma strip_space_Cons: "is_space c \<Longrightarrow> strip (c # s) = strip s"
  by (simp add: strip_def lstrip_def)

lemma strip_Nil [simp]: "strip [] = []"
  by (simp add: strip_def lstrip_def rstrip_def)

lemma strip_value_line [simp]: "strip (CHR '' '' # strip (CHR '' '' # CHR '' '' # v)) = strip v"
  by (simp add: strip_space_Cons is_space_def)





section \<open>The safety gate\<close>

text \<open>
  C3. A request that is empty, or that consists of white space only, passes the gate:
  \<open>is_safe_request\<close> returns true for it.
\<close>

theorem is_safe_request_blank:
  "text = [] \<or> (\<forall>c\<in>set text. is_space c) \<Longrightarrow> is_safe_request text"
  by (auto simp: is_safe_request_def strip_all_space)

theorem is_safe_request_blank_witness:
  "(''   '' = [] \<or> (\<forall>c\<in>set ''   ''. is_space c)) \<and> is_safe_request ''   ''"
proof -
  have h: "''   '' = [] \<or> (\<forall>c\<in>set ''   ''. is_space c)"
    by (simp add: is_space_def)
  from is_safe_request_blank [OF h] h show ?thesis by simp
qed



















section \<open>The word entry\<close>

text \<open>
  C4. When WordNet has no synset for the normalised word, \<open>define_word_json\<close> returns
  the not-found entry: part of speech "unknown", pronunciation "N/A", the fixed fallback
  definition, no example and no synonym.
\<close>

theorem define_word_json_not_found:
  "wn_synsets (lower (strip word)) = [] \<Longrightarrow>
     define_word_json wn_synsets word =
       \<lparr>entry_word = lower (strip word), entry_part_of_speech = ''unknown'',
        entry_pronunciation = ''N/A'',
        entry_definition = ''No entry found. Check spelling or try a simpler term.'',
        entry_examples = [], entry_synonyms = []\<rparr>"
  by (simp add: define_word_json_def NO_ENTRY_def)

theorem define_word_json_not_found_witness:
  "(\<lambda>_. []) (lower (strip ''cat'')) = ([] :: synset list) \<and>
   define_word_json (\<lambda>_. []) ''cat'' =
       \<lparr>entry_word = ''cat'', entry_part_of_speech = ''unknown'',
        entry_pronunciation = ''N/A'',
        entry_definition = ''No entry found. Check spelling or try a simpler term.'',
        entry_examples = [], entry_synonyms = []\<rparr>"
proof -
  have n: "lower (strip ''cat'') = ''cat''" by code_simp
  show ?thesis using define_word_json_not_found [of "\<lambda>_. []" "''cat''"] n by simp
qed

lemma length_scan_examples: "length ex \<le> 2 \<Longrightarrow> length (scan_examples ex sss) \<le> 2"
  by (induction sss arbitrary: ex) auto

lemma length_gather_examples: "length (gather_examples synsets) \<le> 2"
  by (simp add: gather_examples_def Let_def length_scan_examples)

lemma length_collect_synonyms: "length (collect_synonyms ss word limit) \<le> limit"
  by (simp add: collect_synonyms_def)

lemma length_gather_synonyms: "length (gather_synonyms synsets word) \<le> 3"
  by (simp add: gather_synonyms_def Let_def length_collect_synonyms)

text \<open>
  C5. Whatever the word and whatever WordNet answers, the entry of \<open>define_word_json\<close>
  has at most 3 synonyms and at most 2 examples; so have the two lists that
  \<open>define_word\<close> hands to its formatter, for every list of synsets.
\<close>

theorem entry_caps:
  "length (entry_synonyms (define_word_json wn_synsets word)) \<le> 3
   \<and> length (entry_examples (define_word_json wn_synsets word)) \<le> 2
   \<and> length (gather_synonyms synsets w) \<le> 3
   \<and> length (gather_examples synsets) \<le> 2"
  by (simp add: define_word_json_def Let_def length_gather_synonyms length_gather_examples)

lemma scan_examples_find:
  "scan_examples ex sss =
     (case find (\<lambda>ss. syn_examples ss \<noteq> []) sss of
        Some ss \<Rightarrow> take 2 (syn_examples ss)
      | None \<Rightarrow> if sss = [] then ex else [])"
proof (induction sss arbitrary: ex)
  case Nil
  show ?case by simp
next
  case (Cons ss rest)
  show ?case
  proof (cases "syn_examples ss = []")
    case True
    then show ?thesis using Cons [of "[]"] by (auto split: option.splits)
  next
    case False
    then show ?thesis by simp
  qed
qed

lemma gather_examples_spec: "gather_examples synsets = spec_examples synsets"
  by (auto simp: gather_examples_def spec_examples_def scan_examples_find drop_Suc
           split: option.splits)

lemma spec_examples_one_sense:
  assumes "synsets \<noteq> []"
  shows "\<exists>ss \<in> set (take 4 synsets). spec_examples synsets = take 2 (syn_examples ss)"
proof -
  obtain p rest where s: "synsets = p # rest" using assms by (cases synsets) auto
  show ?thesis
  proof (cases "syn_examples p \<noteq> []")
    case True
    then show ?thesis by (simp add: s spec_examples_def)
  next
    case False
    show ?thesis
    proof (cases "find (\<lambda>ss. syn_examples ss \<noteq> []) (take 3 rest)")
      case None
      then show ?thesis using False by (simp add: s spec_examples_def)
    next
      case (Some ss)
      then have "ss \<in> set (take 3 rest)"
        unfolding find_Some_iff by (metis nth_mem)
      then show ?thesis using False Some by (auto simp: s spec_examples_def)
    qed
  qed
qed

text \<open>
  C6. When WordNet answers at least one synset, the examples of the entry are the first
  two (or fewer) examples of the primary synset; if it has none, those of the first
  synset among the next three that has any (and no example when none has). In every
  case they are the first examples of one single synset among the first four: examples
  of different synsets are never put together.
\<close>

theorem entry_examples_spec:
  assumes "wn_synsets (lower (strip word)) \<noteq> []"
  shows "entry_examples (define_word_json wn_synsets word)
           = spec_examples (wn_synsets (lower (strip word)))
         \<and> (\<exists>ss \<in> set (take 4 (wn_synsets (lower (strip word)))).
               entry_examples (define_word_json wn_synsets word) = take 2 (syn_examples ss))"
  using assms spec_examples_one_sense [OF assms]
  by (simp add: define_word_json_def Let_def gather_examples_spec)

theorem entry_examples_spec_witness:
  "(\<lambda>_. dog_synsets) (lower (strip ''dog'')) \<noteq> []
   \<and> entry_examples (define_word_json (\<lambda>_. dog_synsets) ''dog'') = [''e1'', ''e2'']"
  using entry_examples_spec [of "\<lambda>_. dog_synsets" "''dog''"]
  by (simp add: spec_examples_def dog_synsets_def)

lemma first_seen_Nil [simp]: "first_seen [] = []"
  by (simp add: first_seen_def)

lemma remdups_snoc: "remdups (xs @ [x]) = filter (\<lambda>y. y \<noteq> x) (remdups xs) @ [x]"
  by (induction xs) auto

lemma first_seen_Cons: "first_seen (x # xs) = x # filter (\<lambda>y. y \<noteq> x) (first_seen xs)"
  by (simp add: first_seen_def remdups_snoc rev_filter)

lemma set_first_seen [simp]: "set (first_seen xs) = set xs"
  by (simp add: first_seen_def)

lemma distinct_first_seen [simp]: "distinct (first_seen xs)"
  by (simp add: first_seen_def)

lemma length_first_seen: "length (first_seen xs) = card (set xs)"
  using distinct_card [of "first_seen xs"] by simp

lemma first_seen_append:
  "first_seen (u @ v) = first_seen u @ filter (\<lambda>x. x \<notin> set u) (first_seen v)"
proof (induction u)
  case Nil
  show ?case by simp
next
  case (Cons a u)
  have "filter (\<lambda>y. y \<noteq> a) (filter (\<lambda>x. x \<notin> set u) (first_seen v))
          = filter (\<lambda>x. x \<notin> set (a # u)) (first_seen v)"
    by (auto intro: filter_cong)
  then show ?case using Cons by (simp add: first_seen_Cons)
qed

lemma unique_loop_first_seen:
  "unique_loop seen unique xs = unique @ filter (\<lambda>x. x \<notin> seen) (first_seen xs)"
proof (induction xs arbitrary: seen unique)
  case Nil
  show ?case by simp
next
  case (Cons s rest)
  show ?case
  proof (cases "s \<in> seen")
    case True
    have "filter (\<lambda>x. x \<notin> seen) (filter (\<lambda>y. y \<noteq> s) (first_seen rest))
            = filter (\<lambda>x. x \<notin> seen) (first_seen rest)"
      using True by (auto intro: filter_cong)
    then show ?thesis using True Cons [of seen unique] by (simp add: first_seen_Cons)
  next
    case False
    have "filter (\<lambda>x. x \<notin> seen) (filter (\<lambda>y. y \<noteq> s) (first_seen rest))
            = filter (\<lambda>x. x \<notin> insert s seen) (first_seen rest)"
      by (auto intro: filter_cong)
    then show ?thesis using False Cons [of "insert s seen" "unique @ [s]"]
      by (simp add: first_seen_Cons)
  qed
qed

lemma unique_loop_start: "unique_loop {} [] xs = first_seen xs"
  by (simp add: unique_loop_first_seen)

lemma collect_synonyms_spec:
  "collect_synonyms ss word limit = take limit (spec_sense_synonyms word ss)"
proof -
  let ?xs = "map replace_underscore
               (filter (\<lambda>name. lower name \<noteq> lower word) (syn_lemma_names ss))"
  have a: "sorted_list_of_set (set ?xs) = sort (remdups ?xs)"
    by (rule sorted_list_of_set_sort_remdups)
  have b: "replace_underscore ` {name \<in> set (syn_lemma_names ss). lower name \<noteq> lower word}
             = set ?xs"
    by auto
  show ?thesis
    unfolding collect_synonyms_def spec_sense_synonyms_def b a ..
qed

lemma distinct_spec_sense_synonyms [simp]: "distinct (spec_sense_synonyms word ss)"
  unfolding spec_sense_synonyms_def by (rule distinct_sorted_list_of_set)

lemma extend_synonyms_concat:
  "extend_synonyms synonyms sss word
     = synonyms @ concat (map (\<lambda>ss. collect_synonyms ss word 3) sss)"
  by (induction sss arbitrary: synonyms) auto

lemma take_first_seen_full:
  assumes "n \<le> card (set u)"
  shows "take n (first_seen (u @ v)) = take n (first_seen u)"
  using assms by (simp add: first_seen_append length_first_seen)

lemma cap_one:
  assumes "distinct a"
  shows "take 3 (first_seen (xs @ take 3 a @ ys)) = take 3 (first_seen (xs @ a @ ys))"
proof (cases "length a \<le> 3")
  case True
  then show ?thesis by simp
next
  case False
  let ?u = "xs @ take 3 a"
  have "card (set (take 3 a)) = 3"
    using assms False distinct_card [of "take 3 a"] by simp
  moreover have "card (set (take 3 a)) \<le> card (set ?u)"
    by (intro card_mono) auto
  ultimately have c: "3 \<le> card (set ?u)" by simp
  have e: "xs @ a @ ys = ?u @ (drop 3 a @ ys)"
    by (metis append_assoc append_take_drop_id)
  have "take 3 (first_seen (xs @ take 3 a @ ys)) = take 3 (first_seen (?u @ ys))"
    by simp
  also have "\<dots> = take 3 (first_seen ?u)"
    using c by (rule take_first_seen_full)
  also have "\<dots> = take 3 (first_seen (?u @ (drop 3 a @ ys)))"
    using c by (rule take_first_seen_full [symmetric])
  finally show ?thesis unfolding e .
qed

lemma cap_all:
  assumes "\<And>ss. distinct (g ss)"
  shows "take 3 (first_seen (xs @ concat (map (\<lambda>ss. take 3 (g ss)) sss) @ ys))
           = take 3 (first_seen (xs @ concat (map g sss) @ ys))"
proof (induction sss arbitrary: xs)
  case Nil
  show ?case by simp
next
  case (Cons s sss)
  have "take 3 (first_seen (xs @ take 3 (g s) @ (concat (map (\<lambda>ss. take 3 (g ss)) sss) @ ys)))
          = take 3 (first_seen (xs @ g s @ (concat (map (\<lambda>ss. take 3 (g ss)) sss) @ ys)))"
    using assms by (rule cap_one)
  also have "\<dots> = take 3 (first_seen ((xs @ g s) @ concat (map g sss) @ ys))"
    using Cons [of "xs @ g s"] by simp
  finally show ?case by simp
qed

lemma gather_synonyms_spec:
  "gather_synonyms synsets word = spec_synonyms word synsets"
proof -
  let ?p = "take 3 (spec_sense_synonyms word (hd synsets))"
  let ?rest = "take 3 (drop 1 synsets)"
  have c: "take 3 (first_seen (?p @ concat (map (\<lambda>ss. take 3 (spec_sense_synonyms word ss)) ?rest)))
          = take 3 (first_seen (?p @ concat (map (spec_sense_synonyms word) ?rest)))"
    using cap_all [of "spec_sense_synonyms word" ?p ?rest "[]"] by simp
  have g: "gather_synonyms synsets word =
      (if length ?p < 2
       then take 3 (first_seen (?p @ concat (map (\<lambda>ss. take 3 (spec_sense_synonyms word ss)) ?rest)))
       else ?p)"
    by (simp only: gather_synonyms_def Let_def collect_synonyms_spec extend_synonyms_concat
          unique_loop_start)
  have s: "spec_synonyms word synsets =
      (if length ?p < 2
       then take 3 (first_seen (?p @ concat (map (spec_sense_synonyms word) ?rest)))
       else ?p)"
    by (simp only: spec_synonyms_def Let_def drop_Suc drop_0 One_nat_def)
  show ?thesis by (simp only: g s c)
qed

text \<open>
  C7. When WordNet answers at least one synset, the synonyms of the entry are built as
  the specification says: the synonyms of the primary synset without the query word, in
  alphabetical order, at most 3 of them; and only if these are fewer than 2, the
  synonyms of the next three synsets (each without the query word, in alphabetical
  order) are appended in the order of the synsets, the list is de-duplicated with the
  first occurrence of each kept, and cut to 3. The code moreover cuts each appended list
  to 3 first, which changes nothing. A synonym is left out as the query word when the
  name of its lemma is the query word, whatever the case.
\<close>

theorem entry_synonyms_spec:
  assumes "wn_synsets (lower (strip word)) \<noteq> []"
  shows "entry_synonyms (define_word_json wn_synsets word)
           = spec_synonyms (lower (strip word)) (wn_synsets (lower (strip word)))"
  using assms by (simp add: define_word_json_def Let_def gather_synonyms_spec)

lemma dog_normal: "lower (strip ''dog'') = ''dog''"
  by code_simp

lemma dog_entry_synonyms:
  "entry_synonyms (define_word_json (\<lambda>_. dog_synsets) ''dog'')
     = [''domestic dog'', ''chase'', ''go after'']"
  by code_simp

theorem entry_synonyms_spec_witness:
  "(\<lambda>_. dog_synsets) (lower (strip ''dog'')) \<noteq> []
   \<and> spec_synonyms ''dog'' dog_synsets = [''domestic dog'', ''chase'', ''go after'']"
proof -
  have h: "(\<lambda>_. dog_synsets) (lower (strip ''dog'')) \<noteq> []"
    by (simp add: dog_synsets_def)
  from entry_synonyms_spec [OF h] dog_entry_synonyms dog_normal h show ?thesis by simp
qed

lemma is_linebreak_lower_char [simp]: "is_linebreak (lower_char c) = is_linebreak c"
  by (auto simp: is_linebreak_def of_char_lower_char is_upper_def Let_def)

lemma single_line_lower [simp]: "single_line (lower s) = single_line s"
  by (simp add: single_line_def lower_def)















section \<open>Parsing a formatted entry\<close>














lemma single_line_append [simp]: "single_line (a @ b) = (single_line a \<and> single_line b)"
  by (auto simp: single_line_def)




















section \<open>The image entry\<close>

text \<open>
  C8. Once the file has been found, its extension accepted and the image decoded, and
  the classifier has answered: a confidence below 0.15 gives the label "unknown
  object" with the fixed low-confidence description and suggestion, whatever the table
  holds; a confidence of at least 0.15 gives the label of the classifier, with the entry
  of the table as description and meaning when the table has the label, and with the
  generic sentences about the label otherwise. In all three cases the formatter is
  given the confidence of the classifier itself.
\<close>

theorem describe_image_entry:
  assumes "isfile w image_path"
    and "lower (snd (splitext image_path)) \<in> valid_extensions"
    and "load_and_open w image_path = Inr img"
    and "infer w img = Inr (confidence, pred_idx)"
  shows "(confidence < 0.15 \<longrightarrow>
            describe_image w table image_path =
              image_format_entry (percent w) ''unknown object''
                ''The classifier could not identify this image with high confidence.''
                ''Try uploading a clearer photo or a different angle.'' confidence)
       \<and> (0.15 \<le> confidence \<longrightarrow>
            (\<forall>description meaning.
               map_of table (pick_label (class_labels w) pred_idx) = Some (description, meaning) \<longrightarrow>
               describe_image w table image_path =
                 image_format_entry (percent w) (pick_label (class_labels w) pred_idx)
                   description meaning confidence))
       \<and> (0.15 \<le> confidence \<longrightarrow>
            map_of table (pick_label (class_labels w) pred_idx) = None \<longrightarrow>
            describe_image w table image_path =
              image_format_entry (percent w) (pick_label (class_labels w) pred_idx)
                (''An image likely depicting: '' @ pick_label (class_labels w) pred_idx @ ''.'')
                ([CHR 0x27] @ title (pick_label (class_labels w) pred_idx) @ [CHR 0x27]
                 @ '' is a concept or object recognized by the image classifier. ''
                 @ ''Consult a reference for more context.'')
                confidence)"
  using assms
  by (simp add: describe_image_def Let_def get_label_info_def LOW_CONFIDENCE_DESCRIPTION_def
        LOW_CONFIDENCE_MEANING_def generic_description_def generic_meaning_def)

lemma ext_cat: "lower (snd (splitext ''cat.png'')) = ''.png''" by code_simp

theorem describe_image_entry_witness:
  "isfile tabby_world ''cat.png''
   \<and> lower (snd (splitext ''cat.png'')) \<in> valid_extensions
   \<and> load_and_open tabby_world ''cat.png'' = Inr ()
   \<and> infer tabby_world () = Inr (0.82, 0)
   \<and> describe_image tabby_world LABEL_INFO ''cat.png'' =
       image_format_entry (percent tabby_world) ''tabby''
         ''A tabby cat with distinctive striped or spotted fur markings.''
         ''A domestic cat pattern; one of the most common coat types in household cats.''
         0.82"
proof -
  have a: "isfile tabby_world ''cat.png''" by (simp add: tabby_world_def)
  have b: "lower (snd (splitext ''cat.png'')) \<in> valid_extensions"
    by (simp add: ext_cat valid_extensions_def)
  have c: "load_and_open tabby_world ''cat.png'' = Inr ()" by (simp add: tabby_world_def)
  have d: "infer tabby_world () = Inr (0.82, 0)" by (simp add: tabby_world_def)
  have l: "pick_label (class_labels tabby_world) 0 = ''tabby''"
    by (simp add: pick_label_def tabby_world_def)
  have t: "map_of LABEL_INFO ''tabby'' =
      Some (''A tabby cat with distinctive striped or spotted fur markings.'',
            ''A domestic cat pattern; one of the most common coat types in household cats.'')"
    by (simp add: LABEL_INFO_def)
  from describe_image_entry [OF a b c d, of LABEL_INFO] a b c d l t show ?thesis by simp
qed





end
